theory Spec2Isabelle
  imports Complex_Main "HOL-Library.Sublist"
begin

section \<open>GeoDataSourceViewModel: a data source of the catalogue\<close>

text \<open>
  A shallow embedding of \<^verbatim>\<open>src/ViewModels/GeoDataSourceViewModel.js\<close>.

  \<^item> The bounds of a rectangle are JavaScript numbers, that is IEEE 754 doubles, with
    their rounded addition, subtraction and comparison; the millisecond readings of
    \<^verbatim>\<open>Date.now()\<close> are modelled as \<^typ>\<open>int\<close>.
  \<^item> A property that is \<^verbatim>\<open>undefined\<close> or holds a value is an \<^typ>\<open>'a option\<close>.
  \<^item> Rectangles are objects: a property holds a reference, and the bounds live in a heap,
    so that the in-place updates of \<^verbatim>\<open>zoomTo\<close> are visible to every holder of the
    reference.
  \<^item> Everything the file does to its collaborators (engine hooks of the subtype, the
    "now viewing" list, analytics, console, camera) is appended to a log of effects.
    The hooks are supplied by subtypes; they are taken to return normally and to leave
    the fields of the view model alone.
\<close>

subsection \<open>Numbers\<close>

text \<open>
  A JavaScript number is a double: not a number, plus or minus infinity, or a finite
  value. \<open>Finite s m e\<close> is the double of sign \<open>s\<close> (true for minus), significand \<open>m\<close> and
  exponent \<open>e\<close>, whose value is \<open>m\<close> times 2 to the power \<open>e\<close>. As in the binary64
  format, a normal double has \<open>2 ^ 52 \<le> m < 2 ^ 53\<close> and \<open>- 1074 \<le> e \<le> 971\<close>, a subnormal
  one has \<open>m < 2 ^ 52\<close> and \<open>e = - 1074\<close>, and the two zeros are \<open>Finite s 0 (- 1074)\<close>.
\<close>

datatype number = NaN | Infinity bool | Finite bool int int

definition units :: "bool \<Rightarrow> int \<Rightarrow> int" where
  "units s n = (if s then - n else n)"

function bit_length :: "int \<Rightarrow> int" where
  "bit_length n = (if n \<le> 0 then 0 else 1 + bit_length (n div 2))"
  by pat_completeness auto
termination
  by (relation "measure nat") auto

declare bit_length.simps [simp del]

text \<open>
  Rounding to the nearest double, ties to the even significand. The exact result is the
  integer \<open>k\<close> times 2 to the power \<open>e\<close>. Its magnitude \<open>n\<close> is brought to the exponent \<open>e'\<close>
  that leaves 53 significant bits (or to the exponent of the subnormals): exactly when
  \<open>e' \<le> e\<close>, else by dividing by \<open>d = 2 ^ (e' - e)\<close> and rounding the quotient \<open>q\<close> by the
  remainder \<open>r\<close>. A quotient rounded up to \<open>2 ^ 53\<close> moves to the next exponent, and an
  exponent above 971 is an overflow to infinity. An exact zero takes the sign given.
\<close>

definition in_range :: "bool \<Rightarrow> int \<Rightarrow> int \<Rightarrow> number" where
  "in_range s m e = (if 971 < e then Infinity s else Finite s m e)"

definition carry :: "bool \<Rightarrow> int \<Rightarrow> int \<Rightarrow> number" where
  "carry s q e = (if q = 2 ^ 53 then in_range s (2 ^ 52) (e + 1) else in_range s q e)"

definition round_quotient :: "bool \<Rightarrow> int \<Rightarrow> int \<Rightarrow> int \<Rightarrow> int \<Rightarrow> number" where
  "round_quotient s q r d e =
     carry s (if d < 2 * r \<or> (d = 2 * r \<and> odd q) then q + 1 else q) e"

definition round_magnitude :: "bool \<Rightarrow> int \<Rightarrow> int \<Rightarrow> int \<Rightarrow> number" where
  "round_magnitude s n e e' =
     (if e' \<le> e then in_range s (n * 2 ^ nat (e - e')) e'
      else round_quotient s (n div 2 ^ nat (e' - e)) (n mod 2 ^ nat (e' - e))
             (2 ^ nat (e' - e)) e')"

definition round_result :: "int \<Rightarrow> int \<Rightarrow> bool \<Rightarrow> number" where
  "round_result k e zero_sign =
     (if k = 0 then Finite zero_sign 0 (- 1074)
      else round_magnitude (k < 0) \<bar>k\<bar> e (max (e + bit_length \<bar>k\<bar> - 53) (- 1074)))"

text \<open>
  Two finite doubles are compared and added as integers, once both are written with one
  exponent: the smaller of the two, or that of the other operand when one is zero.
\<close>

definition common_exponent :: "int \<Rightarrow> int \<Rightarrow> int \<Rightarrow> int \<Rightarrow> int" where
  "common_exponent m e n f = (if m = 0 then f else if n = 0 then e else min e f)"

definition aligned :: "bool \<Rightarrow> int \<Rightarrow> int \<Rightarrow> int \<Rightarrow> int" where
  "aligned s m e g = (if m = 0 then 0 else units s (m * 2 ^ nat (e - g)))"

text \<open>
  \<^verbatim>\<open>x + y\<close>. A sum that is exactly zero is minus zero only when both operands are
  negative, that is, both are minus zero.
\<close>

fun js_add :: "number \<Rightarrow> number \<Rightarrow> number" where
  "js_add NaN y = NaN"
| "js_add x NaN = NaN"
| "js_add (Infinity s) (Infinity t) = (if s = t then Infinity s else NaN)"
| "js_add (Infinity s) (Finite t n f) = Infinity s"
| "js_add (Finite s m e) (Infinity t) = Infinity t"
| "js_add (Finite s m e) (Finite t n f) =
     round_result
       (aligned s m e (common_exponent m e n f) + aligned t n f (common_exponent m e n f))
       (common_exponent m e n f) (s \<and> t)"

fun js_negate :: "number \<Rightarrow> number" where
  "js_negate NaN = NaN"
| "js_negate (Infinity s) = Infinity (\<not> s)"
| "js_negate (Finite s m e) = Finite (\<not> s) m e"

text \<open>\<^verbatim>\<open>x - y\<close> is \<^verbatim>\<open>x + (-y)\<close>.\<close>

definition js_sub :: "number \<Rightarrow> number \<Rightarrow> number" where
  "js_sub x y = js_add x (js_negate y)"

text \<open>\<^verbatim>\<open>x < y\<close> and \<^verbatim>\<open>x > y\<close>: false when an operand is not a number; the zeros are equal.\<close>

fun js_lt :: "number \<Rightarrow> number \<Rightarrow> bool" where
  "js_lt NaN y = False"
| "js_lt x NaN = False"
| "js_lt (Infinity s) (Infinity t) = (s \<and> \<not> t)"
| "js_lt (Infinity s) (Finite t n f) = s"
| "js_lt (Finite s m e) (Infinity t) = (\<not> t)"
| "js_lt (Finite s m e) (Finite t n f) =
     (aligned s m e (common_exponent m e n f) < aligned t n f (common_exponent m e n f))"

definition js_gt :: "number \<Rightarrow> number \<Rightarrow> bool" where
  "js_gt x y = js_lt y x"

declare js_add.simps [simp del] js_negate.simps [simp del] js_lt.simps [simp del]

text \<open>The doubles 0, 1 and 4.\<close>

abbreviation js_0 :: number where
  "js_0 \<equiv> Finite False 0 (- 1074)"

abbreviation js_1 :: number where
  "js_1 \<equiv> Finite False 4503599627370496 (- 52)"

abbreviation js_4 :: number where
  "js_4 \<equiv> Finite False 4503599627370496 (- 50)"

subsection \<open>Data\<close>

record Rectangle =
  west :: number
  south :: number
  east :: number
  north :: number

type_synonym ref = nat

datatype effect =
    enableInCesium
  | disableInCesium
  | enableInLeaflet
  | disableInLeaflet
  | showInCesium
  | hideInCesium
  | showInLeaflet
  | hideInLeaflet
  | nowViewing_add
  | nowViewing_remove
  | ga string string string "int option"
  | console_log string
  | tweens_add Rectangle
  | fitBounds Rectangle

text \<open>
  \<open>ga category action label value\<close> is the call \<^verbatim>\<open>ga('send', 'event', category, action,
  label, value)\<close>; a call without the last argument and a call whose last argument is
  \<^verbatim>\<open>undefined\<close> both have the value \<open>None\<close>.
  \<open>tweens_add r\<close> is \<^verbatim>\<open>scene.tweens.add(CameraFlightPath.createTweenRectangle(scene,
  {destination : rect}))\<close> and \<open>fitBounds r\<close> is
  \<^verbatim>\<open>leafletMap.fitBounds(rectangleToLatLngBounds(rect))\<close>, each with the bounds that
  \<^verbatim>\<open>rect\<close> holds at the moment of the call.
\<close>

record viewModel =
  name :: string
  cesiumScene :: bool
  leafletMap :: bool
  enabledDate :: "int option"
  shownDate :: "int option"
  rectangle :: "ref option"
  legendUrl :: "string option"
  dataUrlType :: "string option"
  dataUrl :: "string option"
  dataCustodian :: string
  metadataUrl :: "string option"
  isEnabled :: bool
  isShown :: bool
  isLegendVisible :: bool
  heap :: "ref \<Rightarrow> Rectangle"
  effects :: "effect list"
  clock :: "nat \<Rightarrow> int"
  ticks :: nat

text \<open>
  \<open>cesiumScene\<close> and \<open>leafletMap\<close> say whether \<^verbatim>\<open>context.cesiumScene\<close> and
  \<^verbatim>\<open>context.leafletMap\<close> are defined. \<open>enabledDate\<close> and \<open>shownDate\<close> are the fields
  \<^verbatim>\<open>_enabledDate\<close> and \<^verbatim>\<open>_shownDate\<close>. \<open>clock\<close> lists the readings that successive calls
  of \<^verbatim>\<open>Date.now()\<close> return, and \<open>ticks\<close> counts the calls made so far.
\<close>

definition emit :: "effect \<Rightarrow> viewModel \<Rightarrow> viewModel" where
  "emit e vm = vm\<lparr>effects := effects vm @ [e]\<rparr>"

definition Date_now :: "viewModel \<Rightarrow> int \<times> viewModel" where
  "Date_now vm = (clock vm (ticks vm), vm\<lparr>ticks := Suc (ticks vm)\<rparr>)"

subsection \<open>Durations\<close>

text \<open>
  \<^verbatim>\<open>((Date.now() - d) / 1000.0) | 0\<close>: the quotient is truncated towards zero and reduced
  to a signed 32-bit integer by \<^verbatim>\<open>| 0\<close>.
\<close>

definition truncate_quotient :: "int \<Rightarrow> int \<Rightarrow> int" where
  "truncate_quotient a b = (if 0 \<le> a then a div b else - ((- a) div b))"

definition ToInt32 :: "int \<Rightarrow> int" where
  "ToInt32 n = (n + 2 ^ 31) mod 2 ^ 32 - 2 ^ 31"

definition elapsed_seconds :: "int \<Rightarrow> int \<Rightarrow> int" where
  "elapsed_seconds now d = ToInt32 (truncate_quotient (now - d) 1000)"

text \<open>
  In the handlers below, \<^verbatim>\<open>defined(viewModel._shownDate)\<close> asks whether the field is not
  \<^verbatim>\<open>undefined\<close>, while \<^verbatim>\<open>if (viewModel._enabledDate)\<close> asks whether it is truthy:
  \<^verbatim>\<open>undefined\<close> and \<^verbatim>\<open>0\<close> are both falsy.
\<close>

subsection \<open>Change handlers of the observable properties\<close>

definition isShownChanged :: "viewModel \<Rightarrow> viewModel" where
  "isShownChanged viewModel =
     (let vm1 = (if cesiumScene viewModel
                 then (if isShown viewModel then emit showInCesium viewModel
                       else emit hideInCesium viewModel)
                 else viewModel);
          vm2 = (if leafletMap vm1
                 then (if isShown vm1 then emit showInLeaflet vm1
                       else emit hideInLeaflet vm1)
                 else vm1)
      in if isShown vm2
         then (let vm3 = emit (ga ''dataSource'' ''shown'' (name vm2) None) vm2
               in case Date_now vm3 of (t, vm4) \<Rightarrow> vm4\<lparr>shownDate := Some t\<rparr>)
         else (case (case shownDate vm2 of
                       Some d \<Rightarrow>
                         (case Date_now vm2 of (t, vm3) \<Rightarrow> (Some (elapsed_seconds t d), vm3))
                     | None \<Rightarrow>
                         (case enabledDate vm2 of
                            None \<Rightarrow> (None, vm2)
                          | Some e \<Rightarrow>
                              if e \<noteq> 0
                              then (case Date_now vm2 of (t, vm3) \<Rightarrow>
                                      (Some (elapsed_seconds t e), vm3))
                              else (None, vm2)))
               of (duration, vm3) \<Rightarrow>
                    emit (ga ''dataSource'' ''hidden'' (name vm3) duration) vm3))"

text \<open>
  Modelled from the spec: the write to a property tracked by knockout (the library is not
  under src/). "Property writes synchronously trigger observer callbacks on the same call
  stack", and a handler is "triggered on any change" of its property: a write of the value
  the property already holds notifies nobody.
\<close>

definition set_isShown :: "bool \<Rightarrow> viewModel \<Rightarrow> viewModel" where
  "set_isShown v vm = (if isShown vm = v then vm else isShownChanged (vm\<lparr>isShown := v\<rparr>))"

definition isEnabledChanged :: "viewModel \<Rightarrow> viewModel" where
  "isEnabledChanged viewModel =
     (let vm1 = (if cesiumScene viewModel
                 then (if isEnabled viewModel then emit enableInCesium viewModel
                       else emit disableInCesium viewModel)
                 else viewModel);
          vm2 = (if leafletMap vm1
                 then (if isEnabled vm1 then emit enableInLeaflet vm1
                       else emit disableInLeaflet vm1)
                 else vm1);
          vm3 = (if isEnabled vm2 \<and> \<not> isShown vm2 then set_isShown True vm2 else vm2)
      in if isEnabled vm3
         then (let vm4 = emit nowViewing_add vm3;
                   vm5 = emit (ga ''dataSource'' ''added'' (name vm4) None) vm4
               in case Date_now vm5 of (t, vm6) \<Rightarrow> vm6\<lparr>enabledDate := Some t\<rparr>)
         else (let vm4 = emit nowViewing_remove vm3
               in case (case enabledDate vm4 of
                          None \<Rightarrow> (None, vm4)
                        | Some e \<Rightarrow>
                            if e \<noteq> 0
                            then (case Date_now vm4 of (t, vm5) \<Rightarrow>
                                    (Some (elapsed_seconds t e), vm5))
                            else (None, vm4))
                  of (duration, vm5) \<Rightarrow>
                       emit (ga ''dataSource'' ''removed'' (name vm5) duration) vm5))"

text \<open>
  Modelled from the spec: the write to the tracked property \<^verbatim>\<open>isEnabled\<close> (knockout is not
  under src/), as for \<open>set_isShown\<close>.
\<close>

definition set_isEnabled :: "bool \<Rightarrow> viewModel \<Rightarrow> viewModel" where
  "set_isEnabled v vm = (if isEnabled vm = v then vm else isEnabledChanged (vm\<lparr>isEnabled := v\<rparr>))"

text \<open>\<^verbatim>\<open>isLegendVisible\<close> is tracked, but nobody subscribes to it.\<close>

definition set_isLegendVisible :: "bool \<Rightarrow> viewModel \<Rightarrow> viewModel" where
  "set_isLegendVisible v vm = vm\<lparr>isLegendVisible := v\<rparr>"

subsection \<open>Toggles\<close>

definition toggleEnabled :: "viewModel \<Rightarrow> bool \<times> viewModel" where
  "toggleEnabled this = (let vm = set_isEnabled (\<not> isEnabled this) this in (isEnabled vm, vm))"

definition toggleShown :: "viewModel \<Rightarrow> bool \<times> viewModel" where
  "toggleShown this = (let vm = set_isShown (\<not> isShown this) this in (isShown vm, vm))"

definition toggleLegendVisible :: "viewModel \<Rightarrow> bool \<times> viewModel" where
  "toggleLegendVisible this =
     (let vm = set_isLegendVisible (\<not> isLegendVisible this) this in (isLegendVisible vm, vm))"

subsection \<open>Zooming to the rectangle\<close>

text \<open>
  Modelled from the spec: \<^verbatim>\<open>CesiumMath.EPSILON3\<close> (Cesium is not under src/), the "small
  angular epsilon" below which a dimension of the rectangle is padded; Cesium gives it
  the value \<^verbatim>\<open>0.001\<close>, the double 4611686018427388 times 2 to the power - 62.
\<close>

definition EPSILON3 :: number where
  "EPSILON3 = Finite False 4611686018427388 (- 62)"

text \<open>
  \<^verbatim>\<open>var scratchRectangle = new Rectangle();\<close> is private to the module: one object, at a
  fixed place of the heap, that every call of \<^verbatim>\<open>zoomTo\<close> reuses.
\<close>

definition scratchRectangle :: ref where
  "scratchRectangle = 0"

definition modify_rectangle :: "ref \<Rightarrow> (Rectangle \<Rightarrow> Rectangle) \<Rightarrow> viewModel \<Rightarrow> viewModel" where
  "modify_rectangle r f vm = vm\<lparr>heap := (heap vm)(r := f (heap vm r))\<rparr>"

text \<open>
  Modelled from the spec: \<^verbatim>\<open>Rectangle.clone(rectangle, result)\<close> (Cesium is not under src/)
  with both arguments defined: the padding "is applied to a clone (the scratch
  rectangle)", that is, the four bounds of \<^verbatim>\<open>rectangle\<close> are stored into \<^verbatim>\<open>result\<close>, which
  is returned.
\<close>

definition Rectangle_clone :: "ref \<Rightarrow> ref \<Rightarrow> viewModel \<Rightarrow> ref \<times> viewModel" where
  "Rectangle_clone r result vm =
     (result, modify_rectangle result (\<lambda>_. \<lparr>west = west (heap vm r), south = south (heap vm r),
                                        east = east (heap vm r), north = north (heap vm r)\<rparr>) vm)"

text \<open>
  The two paddings of \<^verbatim>\<open>zoomTo\<close>, \<^verbatim>\<open>if (rect.east - rect.west < epsilon) { rect.east +=
  epsilon; rect.west -= epsilon; }\<close> and the same for north and south, and its last part,
  which hands \<^verbatim>\<open>rect\<close> to whichever engines the context has.
\<close>

definition pad_east_west :: "number \<Rightarrow> ref \<Rightarrow> viewModel \<Rightarrow> viewModel" where
  "pad_east_west epsilon rect vm =
     (if js_lt (js_sub (east (heap vm rect)) (west (heap vm rect))) epsilon
      then modify_rectangle rect (\<lambda>R. R\<lparr>west := js_sub (west R) epsilon\<rparr>)
             (modify_rectangle rect (\<lambda>R. R\<lparr>east := js_add (east R) epsilon\<rparr>) vm)
      else vm)"

definition pad_north_south :: "number \<Rightarrow> ref \<Rightarrow> viewModel \<Rightarrow> viewModel" where
  "pad_north_south epsilon rect vm =
     (if js_lt (js_sub (north (heap vm rect)) (south (heap vm rect))) epsilon
      then modify_rectangle rect (\<lambda>R. R\<lparr>south := js_sub (south R) epsilon\<rparr>)
             (modify_rectangle rect (\<lambda>R. R\<lparr>north := js_add (north R) epsilon\<rparr>) vm)
      else vm)"

text \<open>
  In \<^verbatim>\<open>zoomTo\<close>, the literal \<^verbatim>\<open>3.14\<close> is the double 7070651414971679 times 2 to the power
  - 51.
\<close>

definition fly_to :: "ref \<Rightarrow> viewModel \<Rightarrow> viewModel" where
  "fly_to rect vm =
     (let vm1 = (if cesiumScene vm then emit (tweens_add (heap vm rect)) vm else vm)
      in if leafletMap vm1 then emit (fitBounds (heap vm1 rect)) vm1 else vm1)"

definition zoomTo :: "viewModel \<Rightarrow> viewModel" where
  "zoomTo this =
     (if \<not> isEnabled this \<or> \<not> isShown this then this
      else case rectangle this of
        None \<Rightarrow> this
      | Some r \<Rightarrow>
          if js_gt (js_sub (east (heap this r)) (west (heap this r)))
               (Finite False 7070651414971679 (- 51))
          then emit (console_log ''Extent is wider than half the world.  Ignoring zoomto'') this
          else
            (let vm1 = emit (ga ''dataSource'' ''zoomTo'' (name this) None) this;
                 epsilon = EPSILON3
             in case Rectangle_clone r scratchRectangle vm1 of (rect, vm2) \<Rightarrow>
                  fly_to rect (pad_north_south epsilon rect (pad_east_west epsilon rect vm2))))"

text \<open>The bounds that the \<^verbatim>\<open>rectangle\<close> property holds, if it is defined.\<close>

definition rectangle_bounds :: "viewModel \<Rightarrow> Rectangle option" where
  "rectangle_bounds vm = map_option (heap vm) (rectangle vm)"

subsection \<open>The constructor\<close>

text \<open>
  Modelled from the spec: \<^verbatim>\<open>Rectangle.MAX_VALUE\<close> (Cesium is not under src/), the
  "whole-world" rectangle that is the default of the \<^verbatim>\<open>rectangle\<close> property:
  \<^verbatim>\<open>new Rectangle(-Math.PI, -CesiumMath.PI_OVER_TWO, Math.PI, CesiumMath.PI_OVER_TWO)\<close>,
  one shared object. \<^verbatim>\<open>Math.PI\<close> is the double nearest to \<open>pi\<close>, 7074237752028440 times 2 to
  the power - 51, and \<^verbatim>\<open>PI_OVER_TWO\<close> is half of it.
\<close>

definition Math_PI :: number where
  "Math_PI = Finite False 7074237752028440 (- 51)"

definition PI_OVER_TWO :: number where
  "PI_OVER_TWO = Finite False 7074237752028440 (- 52)"

definition MAX_VALUE :: ref where
  "MAX_VALUE = 1"

definition MAX_VALUE_bounds :: Rectangle where
  "MAX_VALUE_bounds =
     \<lparr>west = js_negate Math_PI, south = js_negate PI_OVER_TWO,
      east = Math_PI, north = PI_OVER_TWO\<rparr>"

text \<open>
  The heap when the module has been loaded: \<^verbatim>\<open>new Rectangle()\<close> has all four bounds 0.
\<close>

definition initial_heap :: "ref \<Rightarrow> Rectangle" where
  "initial_heap =
     ((\<lambda>_. \<lparr>west = js_0, south = js_0, east = js_0, north = js_0\<rparr>)
      (MAX_VALUE := MAX_VALUE_bounds))"

text \<open>
  The constructor, run in a fresh world. The name belongs to the base class
  \<^verbatim>\<open>GeoDataItemViewModel\<close> and the two engine handles to the context; they are parameters,
  as is the clock.
\<close>

definition GeoDataSourceViewModel :: "string \<Rightarrow> bool \<Rightarrow> bool \<Rightarrow> (nat \<Rightarrow> int) \<Rightarrow> viewModel" where
  "GeoDataSourceViewModel nm scene leaflet clk =
     \<lparr>name = nm, cesiumScene = scene, leafletMap = leaflet,
      enabledDate = None, shownDate = None,
      rectangle = Some MAX_VALUE,
      legendUrl = None, dataUrlType = None, dataUrl = None,
      dataCustodian = ''Unknown'', metadataUrl = None,
      isEnabled = False, isShown = False, isLegendVisible = False,
      heap = initial_heap, effects = [], clock = clk, ticks = 0\<rparr>"

text \<open>
  What a client can do to a view model without assigning its \<^verbatim>\<open>rectangle\<close> property.
\<close>

datatype operation =
    Assign_isEnabled bool
  | Assign_isShown bool
  | Assign_isLegendVisible bool
  | Assign_legendUrl "string option"
  | Assign_dataUrlType "string option"
  | Assign_dataUrl "string option"
  | Assign_dataCustodian string
  | Assign_metadataUrl "string option"
  | Call_toggleEnabled
  | Call_toggleShown
  | Call_toggleLegendVisible
  | Call_zoomTo

fun perform :: "operation \<Rightarrow> viewModel \<Rightarrow> viewModel" where
  "perform (Assign_isEnabled v) vm = set_isEnabled v vm"
| "perform (Assign_isShown v) vm = set_isShown v vm"
| "perform (Assign_isLegendVisible v) vm = set_isLegendVisible v vm"
| "perform (Assign_legendUrl u) vm = vm\<lparr>legendUrl := u\<rparr>"
| "perform (Assign_dataUrlType u) vm = vm\<lparr>dataUrlType := u\<rparr>"
| "perform (Assign_dataUrl u) vm = vm\<lparr>dataUrl := u\<rparr>"
| "perform (Assign_dataCustodian u) vm = vm\<lparr>dataCustodian := u\<rparr>"
| "perform (Assign_metadataUrl u) vm = vm\<lparr>metadataUrl := u\<rparr>"
| "perform Call_toggleEnabled vm = snd (toggleEnabled vm)"
| "perform Call_toggleShown vm = snd (toggleShown vm)"
| "perform Call_toggleLegendVisible vm = snd (toggleLegendVisible vm)"
| "perform Call_zoomTo vm = zoomTo vm"

fun run :: "operation list \<Rightarrow> viewModel \<Rightarrow> viewModel" where
  "run [] vm = vm"
| "run (x # xs) vm = run xs (perform x vm)"

text \<open>
  The states a view model can be in: it is constructed, and then a client performs
  operations, assigns the \<^verbatim>\<open>rectangle\<close> property (it cannot get hold of the scratch
  rectangle), or writes the bounds of rectangles (other than the scratch rectangle, which
  is private, and \<^verbatim>\<open>Rectangle.MAX_VALUE\<close>, which is frozen). The clock gives time values:
  whole milliseconds since 1970, at most 8640000000000000. On such readings the
  subtraction of \<^verbatim>\<open>elapsed_seconds\<close> is exact in doubles and the rounded quotient has the
  integer part of the exact one.
\<close>

inductive reachable :: "viewModel \<Rightarrow> bool" where
  constructed:
    "(\<And>n. 0 \<le> clk n \<and> clk n \<le> 8640000000000000) \<Longrightarrow>
     reachable (GeoDataSourceViewModel nm scene leaflet clk)"
| performed: "reachable vm \<Longrightarrow> reachable (perform x vm)"
| rectangle_assigned:
    "reachable vm \<Longrightarrow> r \<noteq> Some scratchRectangle \<Longrightarrow> reachable (vm\<lparr>rectangle := r\<rparr>)"
| bounds_written:
    "reachable vm \<Longrightarrow> h scratchRectangle = heap vm scratchRectangle \<Longrightarrow>
     h MAX_VALUE = heap vm MAX_VALUE \<Longrightarrow> reachable (vm\<lparr>heap := h\<rparr>)"

definition is_camera_effect :: "effect \<Rightarrow> bool" where
  "is_camera_effect e = (case e of tweens_add _ \<Rightarrow> True | fitBounds _ \<Rightarrow> True | _ \<Rightarrow> False)"

subsection \<open>Capabilities and the legend\<close>

definition supportsReordering :: "viewModel \<Rightarrow> bool" where
  "supportsReordering this = False"

definition supportsOpacity :: "viewModel \<Rightarrow> bool" where
  "supportsOpacity this = False"

definition hasLegend :: "viewModel \<Rightarrow> bool" where
  "hasLegend this = (case legendUrl this of None \<Rightarrow> False | Some u \<Rightarrow> length u > 0)"

text \<open>
  \<^verbatim>\<open>var imageUrlRegex = /[.\/](png|jpg|jpeg|gif)/i;\<close> and \<^verbatim>\<open>legendUrl.match(imageUrlRegex)\<close>.
  The expression is not anchored: \<^verbatim>\<open>match\<close> tries every position from the left, and at a
  position the expression wants a dot or a slash followed by the first alternative that
  fits, letters compared without regard to case. The result is \<^verbatim>\<open>null\<close>, or an array of
  the matched text and the text of the group.

  Under the flag \<^verbatim>\<open>i\<close> two characters are equal when their canonical forms are, and the
  canonical form of a character is its upper case, unless that would turn a character
  that is not ASCII into one that is; so only the letters a to z change.
\<close>

definition Canonicalize :: "char \<Rightarrow> char" where
  "Canonicalize c =
     (let n = (of_char c :: nat) in if 97 \<le> n \<and> n \<le> 122 then char_of (n - 32) else c)"

definition image_extensions :: "string list" where
  "image_extensions = [''png'', ''jpg'', ''jpeg'', ''gif'']"

fun match_literal :: "string \<Rightarrow> string \<Rightarrow> bool" where
  "match_literal [] s = True"
| "match_literal (p # ps) [] = False"
| "match_literal (p # ps) (c # cs) = (Canonicalize p = Canonicalize c \<and> match_literal ps cs)"

fun match_alternatives :: "string list \<Rightarrow> string \<Rightarrow> string option" where
  "match_alternatives [] s = None"
| "match_alternatives (a # as) s =
     (if match_literal a s then Some (take (length a) s) else match_alternatives as s)"

definition match_here :: "string \<Rightarrow> string list option" where
  "match_here s =
     (case s of
        [] \<Rightarrow> None
      | c # cs \<Rightarrow>
          if c = CHR ''.'' \<or> c = CHR ''/''
          then (case match_alternatives image_extensions cs of
                  None \<Rightarrow> None
                | Some g \<Rightarrow> Some [c # g, g])
          else None)"

fun match_imageUrlRegex :: "string \<Rightarrow> string list option" where
  "match_imageUrlRegex [] = None"
| "match_imageUrlRegex (c # cs) =
     (case match_here (c # cs) of
        Some m \<Rightarrow> Some m
      | None \<Rightarrow> match_imageUrlRegex cs)"

text \<open>What the getter \<^verbatim>\<open>legendIsImage\<close> can return, and which of these values are truthy.\<close>

datatype js_value = Boolean bool | Null | Array "string list"

definition truthy :: "js_value \<Rightarrow> bool" where
  "truthy v = (case v of Boolean b \<Rightarrow> b | Null \<Rightarrow> False | Array _ \<Rightarrow> True)"

definition legendIsImage :: "viewModel \<Rightarrow> js_value" where
  "legendIsImage this =
     (case legendUrl this of
        None \<Rightarrow> Boolean False
      | Some u \<Rightarrow>
          if length u = 0 then Boolean False
          else (case match_imageUrlRegex u of None \<Rightarrow> Null | Some m \<Rightarrow> Array m))"

text \<open>
  The reading of "the legend URL matches one of the image file extensions png, jpg, jpeg or
  gif, case-insensitively" that asks least: somewhere in the URL there is a dot followed
  by one of the four extensions, in any mix of cases.
\<close>

definition contains_ci :: "string \<Rightarrow> string \<Rightarrow> bool" where
  "contains_ci pat u = sublist (map Canonicalize pat) (map Canonicalize u)"

definition has_image_extension :: "string \<Rightarrow> bool" where
  "has_image_extension u = list_ex (\<lambda>ext. contains_ci (CHR ''.'' # ext) u) image_extensions"

text \<open>What the code asks: a dot or a slash, followed by one of the four words.\<close>

definition has_image_marker :: "string \<Rightarrow> bool" where
  "has_image_marker u =
     list_ex (\<lambda>ext. contains_ci (CHR ''.'' # ext) u \<or> contains_ci (CHR ''/'' # ext) u)
       image_extensions"

text \<open>
  The duration of the "hidden" event in the words of the specification: computed from the
  shown timestamp when it is set, else from the enabled timestamp when that is set, and
  undefined when neither exists.
\<close>

definition specified_hidden_duration :: "int option \<Rightarrow> int option \<Rightarrow> int \<Rightarrow> int option" where
  "specified_hidden_duration shown enabled now =
     (case shown of
        Some d \<Rightarrow> Some (elapsed_seconds now d)
      | None \<Rightarrow> (case enabled of Some e \<Rightarrow> Some (elapsed_seconds now e) | None \<Rightarrow> None))"

section \<open>What the handlers leave alone\<close>

lemma isShownChanged_frame:
  "isEnabled (isShownChanged vm) = isEnabled vm"
  "isShown (isShownChanged vm) = isShown vm"
  "rectangle (isShownChanged vm) = rectangle vm"
  "heap (isShownChanged vm) = heap vm"
  "cesiumScene (isShownChanged vm) = cesiumScene vm"
  "leafletMap (isShownChanged vm) = leafletMap vm"
  "name (isShownChanged vm) = name vm"
  "enabledDate (isShownChanged vm) = enabledDate vm"
  by (simp_all add: isShownChanged_def emit_def Date_now_def Let_def split: option.split)

lemma set_isShown_frame:
  "isEnabled (set_isShown v vm) = isEnabled vm"
  "isShown (set_isShown v vm) = v"
  "rectangle (set_isShown v vm) = rectangle vm"
  "heap (set_isShown v vm) = heap vm"
  "cesiumScene (set_isShown v vm) = cesiumScene vm"
  "leafletMap (set_isShown v vm) = leafletMap vm"
  "name (set_isShown v vm) = name vm"
  "enabledDate (set_isShown v vm) = enabledDate vm"
  by (auto simp add: set_isShown_def isShownChanged_frame)

lemma isEnabledChanged_frame:
  "isEnabled (isEnabledChanged vm) = isEnabled vm"
  "isShown (isEnabledChanged vm) = (isEnabled vm \<or> isShown vm)"
  "rectangle (isEnabledChanged vm) = rectangle vm"
  "heap (isEnabledChanged vm) = heap vm"
  "cesiumScene (isEnabledChanged vm) = cesiumScene vm"
  "leafletMap (isEnabledChanged vm) = leafletMap vm"
  "name (isEnabledChanged vm) = name vm"
  by (simp_all add: isEnabledChanged_def emit_def Date_now_def Let_def set_isShown_frame
      split: option.split)

lemma set_isEnabled_frame:
  "isEnabled (set_isEnabled v vm) = v"
  "rectangle (set_isEnabled v vm) = rectangle vm"
  "heap (set_isEnabled v vm) = heap vm"
  "cesiumScene (set_isEnabled v vm) = cesiumScene vm"
  "leafletMap (set_isEnabled v vm) = leafletMap vm"
  "name (set_isEnabled v vm) = name vm"
  by (auto simp add: set_isEnabled_def isEnabledChanged_frame)

lemma set_isEnabled_isShown:
  "isShown (set_isEnabled v vm) = (if isEnabled vm = v then isShown vm else v \<or> isShown vm)"
  by (simp add: set_isEnabled_def isEnabledChanged_frame)

section \<open>The toggles and the two flags\<close>

text \<open>
  C8. One call of \<^verbatim>\<open>toggleEnabled\<close> flips \<^verbatim>\<open>isEnabled\<close> and returns the new value; a second
  call, right after the first, returns the value \<^verbatim>\<open>isEnabled\<close> had at the start and leaves
  \<^verbatim>\<open>isEnabled\<close> at that value. This holds from every state.
\<close>

theorem toggleEnabled_twice:
  "fst (toggleEnabled vm) = (\<not> isEnabled vm) \<and>
   isEnabled (snd (toggleEnabled vm)) = (\<not> isEnabled vm) \<and>
   fst (toggleEnabled (snd (toggleEnabled vm))) = isEnabled vm \<and>
   isEnabled (snd (toggleEnabled (snd (toggleEnabled vm)))) = isEnabled vm"
  by (simp add: toggleEnabled_def Let_def set_isEnabled_frame)

theorem toggleEnabled_twice_witness:
  "fst (toggleEnabled (GeoDataSourceViewModel ''layer'' True True int)) \<and>
   \<not> fst (toggleEnabled (snd (toggleEnabled (GeoDataSourceViewModel ''layer'' True True int)))) \<and>
   \<not> isEnabled (snd (toggleEnabled (snd (toggleEnabled
                    (GeoDataSourceViewModel ''layer'' True True int)))))"
  using toggleEnabled_twice [of "GeoDataSourceViewModel ''layer'' True True int"]
  by (simp add: GeoDataSourceViewModel_def)

text \<open>
  C1. When \<^verbatim>\<open>isEnabled\<close> goes from false to true, by a write or by \<^verbatim>\<open>toggleEnabled\<close>, the
  view model is shown afterwards: \<^verbatim>\<open>isShown\<close> is set to true if it was false, and stays
  true if it was true.
\<close>

theorem enabling_shows:
  assumes "\<not> isEnabled vm"
  shows "isShown (set_isEnabled True vm) \<and> isShown (snd (toggleEnabled vm))"
  using assms by (simp add: toggleEnabled_def Let_def set_isEnabled_isShown)

theorem enabling_shows_witness:
  "\<not> isEnabled (GeoDataSourceViewModel ''layer'' True True int) \<and>
   \<not> isShown (GeoDataSourceViewModel ''layer'' True True int) \<and>
   isShown (set_isEnabled True (GeoDataSourceViewModel ''layer'' True True int)) \<and>
   isShown (snd (toggleEnabled (GeoDataSourceViewModel ''layer'' True True int)))"
  using enabling_shows [of "GeoDataSourceViewModel ''layer'' True True int"]
  by (simp add: GeoDataSourceViewModel_def)

text \<open>
  C2. When \<^verbatim>\<open>isEnabled\<close> goes from true to false while the view model is shown, \<^verbatim>\<open>isShown\<close>
  is still true afterwards: the handler does not write it on this path, and the outcome is
  a view model that is shown and not enabled.
\<close>

theorem disabling_keeps_shown:
  assumes "isEnabled vm" and "isShown vm"
  shows "isShown (set_isEnabled False vm) \<and> \<not> isEnabled (set_isEnabled False vm) \<and>
         isShown (snd (toggleEnabled vm)) \<and> \<not> isEnabled (snd (toggleEnabled vm))"
  using assms by (simp add: toggleEnabled_def Let_def set_isEnabled_isShown set_isEnabled_frame)

theorem disabling_keeps_shown_witness:
  "isEnabled (run [Call_toggleEnabled] (GeoDataSourceViewModel ''layer'' True True int)) \<and>
   isShown (run [Call_toggleEnabled] (GeoDataSourceViewModel ''layer'' True True int)) \<and>
   isShown (set_isEnabled False
     (run [Call_toggleEnabled] (GeoDataSourceViewModel ''layer'' True True int))) \<and>
   \<not> isEnabled (set_isEnabled False
     (run [Call_toggleEnabled] (GeoDataSourceViewModel ''layer'' True True int)))"
proof -
  have "isEnabled (run [Call_toggleEnabled] (GeoDataSourceViewModel ''layer'' True True int))"
    and "isShown (run [Call_toggleEnabled] (GeoDataSourceViewModel ''layer'' True True int))"
    by (simp_all add: toggleEnabled_def Let_def set_isEnabled_frame set_isEnabled_isShown
        GeoDataSourceViewModel_def)
  then show ?thesis
    using disabling_keeps_shown
      [of "run [Call_toggleEnabled] (GeoDataSourceViewModel ''layer'' True True int)"]
    by simp
qed

section \<open>zoomTo\<close>

text \<open>
  C4. When \<^verbatim>\<open>isEnabled\<close> is false, or \<^verbatim>\<open>isShown\<close> is false, or \<^verbatim>\<open>rectangle\<close> is undefined,
  \<^verbatim>\<open>zoomTo\<close> returns at once: the state after the call, with its log of engine calls and
  analytics events, is the state before it.
\<close>

theorem zoomTo_noop:
  assumes "\<not> isEnabled vm \<or> \<not> isShown vm \<or> rectangle vm = None"
  shows "zoomTo vm = vm"
  using assms by (auto simp add: zoomTo_def)

theorem zoomTo_noop_witness:
  "\<not> isEnabled (GeoDataSourceViewModel ''layer'' True True int) \<and>
   zoomTo (GeoDataSourceViewModel ''layer'' True True int) =
   GeoDataSourceViewModel ''layer'' True True int"
proof -
  have "\<not> isEnabled (GeoDataSourceViewModel ''layer'' True True int)"
    by (simp add: GeoDataSourceViewModel_def)
  then show ?thesis
    using zoomTo_noop [of "GeoDataSourceViewModel ''layer'' True True int"] by simp
qed

subsection \<open>Some sums and comparisons\<close>

lemmas evaluate = js_add.simps js_negate.simps js_lt.simps js_sub_def js_gt_def
  round_result_def round_magnitude_def round_quotient_def carry_def in_range_def units_def
  aligned_def common_exponent_def bit_length.simps

text \<open>A width of 4 is above 3.14; a width of 3.14 itself is not, and is not below 0.001.\<close>

lemma width_4: "js_gt (js_sub js_4 js_0) (Finite False 7070651414971679 (- 51))"
  by (simp add: evaluate)

lemma width_3_14:
  "\<not> js_gt (js_sub (Finite False 7070651414971679 (- 51)) js_0)
       (Finite False 7070651414971679 (- 51))"
  "\<not> js_lt (js_sub (Finite False 7070651414971679 (- 51)) js_0) EPSILON3"
  by (simp_all add: evaluate EPSILON3_def)

text \<open>
  From 1 to 1 and from 0 to 1: 1 + 0.001 is 1.001, 1 - 0.001 is 0.999, and
  1.001 - 0.999 is 0.0019999999999998908, where 0 + (0.001 + 0.001) is 0.002.
\<close>

lemma width_0:
  "\<not> js_gt (js_sub js_1 js_1) (Finite False 7070651414971679 (- 51))"
  "js_lt (js_sub js_1 js_1) EPSILON3"
  by (simp_all add: evaluate EPSILON3_def)

text \<open>
  From -9.999999999999996e-05 to 0.0009 the exact width is below 0.001, but the
  subtraction rounds it to 0.001, which is not below 0.001.
\<close>

lemma width_epsilon:
  "aligned False 8301034833169298 (- 63) (- 66) - aligned True 7378697629483818 (- 66) (- 66)
     < aligned False 4611686018427388 (- 62) (- 66)"
  "js_sub (Finite False 8301034833169298 (- 63)) (Finite True 7378697629483818 (- 66)) = EPSILON3"
  "\<not> js_lt (js_sub (Finite False 8301034833169298 (- 63)) (Finite True 7378697629483818 (- 66)))
       EPSILON3"
  by (simp_all add: evaluate EPSILON3_def)

lemma width_1: "\<not> js_lt (js_sub js_1 js_0) EPSILON3"
  by (simp add: evaluate EPSILON3_def)

lemma around_1:
  "js_add js_1 EPSILON3 = Finite False 4508103226997866 (- 52)"
  "js_sub js_1 EPSILON3 = Finite False 8998192055486251 (- 53)"
  by (simp_all add: evaluate EPSILON3_def)

lemma width_padded:
  "js_sub (Finite False 4508103226997866 (- 52)) (Finite False 8998192055486251 (- 53)) =
     Finite False 4611686018427136 (- 61)"
  "js_add (js_sub js_1 js_1) (js_add EPSILON3 EPSILON3) = Finite False 4611686018427388 (- 61)"
  by (simp_all add: evaluate EPSILON3_def)

text \<open>
  C3. For an enabled and shown view model whose rectangle is more than 3.14 wide, that is,
  for which the code's \<^verbatim>\<open>east - west > 3.14\<close> holds, \<^verbatim>\<open>zoomTo\<close> writes the warning to the
  console and returns: nothing else is added to the log (no camera flight, no fitting of
  bounds, no analytics event) and nothing else changes.
\<close>

theorem zoomTo_refuses_wide:
  assumes "isEnabled vm" and "isShown vm" and "rectangle vm = Some r"
    and "js_gt (js_sub (east (heap vm r)) (west (heap vm r)))
           (Finite False 7070651414971679 (- 51))"
  shows "zoomTo vm =
         vm\<lparr>effects := effects vm @
               [console_log ''Extent is wider than half the world.  Ignoring zoomto'']\<rparr>"
  using assms by (simp add: zoomTo_def emit_def)

theorem zoomTo_refuses_wide_witness:
  "zoomTo ((GeoDataSourceViewModel ''layer'' True True int)
       \<lparr>rectangle := Some 2, isEnabled := True, isShown := True,
        heap := initial_heap(2 := \<lparr>west = js_0, south = js_0, east = js_4, north = js_1\<rparr>)\<rparr>) =
   (GeoDataSourceViewModel ''layer'' True True int)
       \<lparr>rectangle := Some 2, isEnabled := True, isShown := True,
        heap := initial_heap(2 := \<lparr>west = js_0, south = js_0, east = js_4, north = js_1\<rparr>),
        effects := [console_log ''Extent is wider than half the world.  Ignoring zoomto'']\<rparr>"
  using zoomTo_refuses_wide [of "(GeoDataSourceViewModel ''layer'' True True int)
       \<lparr>rectangle := Some 2, isEnabled := True, isShown := True,
        heap := initial_heap(2 := \<lparr>west = js_0, south = js_0, east = js_4, north = js_1\<rparr>)\<rparr>" 2]
    width_4
  by (simp add: GeoDataSourceViewModel_def)

subsection \<open>The steps of zoomTo\<close>

lemma emit_simps:
  "effects (emit e vm) = effects vm @ [e]"
  "heap (emit e vm) = heap vm"
  "rectangle (emit e vm) = rectangle vm"
  "cesiumScene (emit e vm) = cesiumScene vm"
  "leafletMap (emit e vm) = leafletMap vm"
  by (simp_all add: emit_def)

lemma modify_rectangle_simps:
  "heap (modify_rectangle r f vm) = (heap vm)(r := f (heap vm r))"
  "effects (modify_rectangle r f vm) = effects vm"
  "rectangle (modify_rectangle r f vm) = rectangle vm"
  "cesiumScene (modify_rectangle r f vm) = cesiumScene vm"
  "leafletMap (modify_rectangle r f vm) = leafletMap vm"
  by (simp_all add: modify_rectangle_def)

lemma pad_east_west_frame:
  "effects (pad_east_west e r vm) = effects vm"
  "rectangle (pad_east_west e r vm) = rectangle vm"
  "cesiumScene (pad_east_west e r vm) = cesiumScene vm"
  "leafletMap (pad_east_west e r vm) = leafletMap vm"
  "a \<noteq> r \<Longrightarrow> heap (pad_east_west e r vm) a = heap vm a"
  by (simp_all add: pad_east_west_def modify_rectangle_simps)

lemma pad_east_west_heap:
  "heap (pad_east_west e r vm) r =
     (if js_lt (js_sub (east (heap vm r)) (west (heap vm r))) e
      then (heap vm r)\<lparr>west := js_sub (west (heap vm r)) e, east := js_add (east (heap vm r)) e\<rparr>
      else heap vm r)"
  by (simp add: pad_east_west_def modify_rectangle_simps)

lemma pad_north_south_frame:
  "effects (pad_north_south e r vm) = effects vm"
  "rectangle (pad_north_south e r vm) = rectangle vm"
  "cesiumScene (pad_north_south e r vm) = cesiumScene vm"
  "leafletMap (pad_north_south e r vm) = leafletMap vm"
  "a \<noteq> r \<Longrightarrow> heap (pad_north_south e r vm) a = heap vm a"
  by (simp_all add: pad_north_south_def modify_rectangle_simps)

lemma pad_north_south_heap:
  "heap (pad_north_south e r vm) r =
     (if js_lt (js_sub (north (heap vm r)) (south (heap vm r))) e
      then (heap vm r)\<lparr>south := js_sub (south (heap vm r)) e,
                         north := js_add (north (heap vm r)) e\<rparr>
      else heap vm r)"
  by (simp add: pad_north_south_def modify_rectangle_simps)

lemma fly_to_simps:
  "heap (fly_to r vm) = heap vm"
  "rectangle (fly_to r vm) = rectangle vm"
  "effects (fly_to r vm) = effects vm @
     (if cesiumScene vm then [tweens_add (heap vm r)] else []) @
     (if leafletMap vm then [fitBounds (heap vm r)] else [])"
  by (simp_all add: fly_to_def emit_simps Let_def)

lemma Rectangle_copy:
  "\<lparr>west = west R, south = south R, east = east R, north = north R\<rparr> = R"
  by (cases R) simp

lemma Rectangle_clone_simps:
  "fst (Rectangle_clone r result vm) = result"
  "heap (snd (Rectangle_clone r result vm)) = (heap vm)(result := heap vm r)"
  "effects (snd (Rectangle_clone r result vm)) = effects vm"
  "rectangle (snd (Rectangle_clone r result vm)) = rectangle vm"
  "cesiumScene (snd (Rectangle_clone r result vm)) = cesiumScene vm"
  "leafletMap (snd (Rectangle_clone r result vm)) = leafletMap vm"
  by (simp_all add: Rectangle_clone_def modify_rectangle_simps Rectangle_copy)

lemma zoomTo_flight:
  assumes "isEnabled vm" and "isShown vm" and "rectangle vm = Some r"
    and "\<not> js_gt (js_sub (east (heap vm r)) (west (heap vm r)))
             (Finite False 7070651414971679 (- 51))"
  shows "zoomTo vm =
     fly_to scratchRectangle (pad_north_south EPSILON3 scratchRectangle
       (pad_east_west EPSILON3 scratchRectangle
         (snd (Rectangle_clone r scratchRectangle
            (emit (ga ''dataSource'' ''zoomTo'' (name vm) None) vm)))))"
  using assms by (simp add: zoomTo_def Let_def split_beta Rectangle_clone_simps)

lemma zoomTo_frame:
  "rectangle (zoomTo vm) = rectangle vm"
  "isEnabled (zoomTo vm) = isEnabled vm"
  "isShown (zoomTo vm) = isShown vm"
  "shownDate (zoomTo vm) = shownDate vm"
  by (simp_all add: zoomTo_def Let_def split_beta emit_def fly_to_def pad_north_south_def
      pad_east_west_def modify_rectangle_def Rectangle_clone_def split: option.split)

lemma zoomTo_heap_other:
  assumes "a \<noteq> scratchRectangle"
  shows "heap (zoomTo vm) a = heap vm a"
  using assms
  by (simp add: zoomTo_def Let_def split_beta emit_simps fly_to_simps pad_north_south_frame
      pad_east_west_frame Rectangle_clone_simps split: option.split)

lemma zoomTo_destination:
  assumes "isEnabled vm" and "isShown vm" and "rectangle vm = Some r"
    and "\<not> js_gt (js_sub (east (heap vm r)) (west (heap vm r)))
             (Finite False 7070651414971679 (- 51))"
  shows "heap (zoomTo vm) scratchRectangle =
     \<lparr>west = (if js_lt (js_sub (east (heap vm r)) (west (heap vm r))) EPSILON3
              then js_sub (west (heap vm r)) EPSILON3 else west (heap vm r)),
      south = (if js_lt (js_sub (north (heap vm r)) (south (heap vm r))) EPSILON3
               then js_sub (south (heap vm r)) EPSILON3 else south (heap vm r)),
      east = (if js_lt (js_sub (east (heap vm r)) (west (heap vm r))) EPSILON3
              then js_add (east (heap vm r)) EPSILON3 else east (heap vm r)),
      north = (if js_lt (js_sub (north (heap vm r)) (south (heap vm r))) EPSILON3
               then js_add (north (heap vm r)) EPSILON3 else north (heap vm r))\<rparr>"
proof -
  define vm2 where "vm2 = snd (Rectangle_clone r scratchRectangle
            (emit (ga ''dataSource'' ''zoomTo'' (name vm) None) vm))"
  define vm3 where "vm3 = pad_east_west EPSILON3 scratchRectangle vm2"
  have h2: "heap vm2 scratchRectangle = heap vm r"
    by (simp add: vm2_def Rectangle_clone_simps emit_simps)
  have h3: "heap vm3 scratchRectangle =
      (if js_lt (js_sub (east (heap vm r)) (west (heap vm r))) EPSILON3
       then (heap vm r)\<lparr>west := js_sub (west (heap vm r)) EPSILON3,
                          east := js_add (east (heap vm r)) EPSILON3\<rparr>
       else heap vm r)"
    by (simp add: vm3_def pad_east_west_heap h2)
  have "heap (zoomTo vm) scratchRectangle =
        heap (pad_north_south EPSILON3 scratchRectangle vm3) scratchRectangle"
    by (simp add: zoomTo_flight [OF assms] fly_to_simps vm3_def vm2_def)
  also have "\<dots> =
     (if js_lt (js_sub (north (heap vm3 scratchRectangle)) (south (heap vm3 scratchRectangle)))
           EPSILON3
      then (heap vm3 scratchRectangle)
             \<lparr>south := js_sub (south (heap vm3 scratchRectangle)) EPSILON3,
              north := js_add (north (heap vm3 scratchRectangle)) EPSILON3\<rparr>
      else heap vm3 scratchRectangle)"
    by (rule pad_north_south_heap)
  also have "\<dots> =
     \<lparr>west = (if js_lt (js_sub (east (heap vm r)) (west (heap vm r))) EPSILON3
              then js_sub (west (heap vm r)) EPSILON3 else west (heap vm r)),
      south = (if js_lt (js_sub (north (heap vm r)) (south (heap vm r))) EPSILON3
               then js_sub (south (heap vm r)) EPSILON3 else south (heap vm r)),
      east = (if js_lt (js_sub (east (heap vm r)) (west (heap vm r))) EPSILON3
              then js_add (east (heap vm r)) EPSILON3 else east (heap vm r)),
      north = (if js_lt (js_sub (north (heap vm r)) (south (heap vm r))) EPSILON3
               then js_add (north (heap vm r)) EPSILON3 else north (heap vm r))\<rparr>"
    unfolding h3 by (cases "heap vm r") simp
  finally show ?thesis .
qed

lemma zoomTo_effects:
  assumes "isEnabled vm" and "isShown vm" and "rectangle vm = Some r"
    and "\<not> js_gt (js_sub (east (heap vm r)) (west (heap vm r)))
             (Finite False 7070651414971679 (- 51))"
  shows "effects (zoomTo vm) =
     effects vm @ [ga ''dataSource'' ''zoomTo'' (name vm) None] @
     (if cesiumScene vm then [tweens_add (heap (zoomTo vm) scratchRectangle)] else []) @
     (if leafletMap vm then [fitBounds (heap (zoomTo vm) scratchRectangle)] else [])"
  by (simp add: zoomTo_flight [OF assms] fly_to_simps pad_north_south_frame
      pad_east_west_frame Rectangle_clone_simps emit_simps)

text \<open>A rectangle exactly 3.14 wide is not refused: the camera flies to it as it is.\<close>

lemma zoomTo_width_3_14:
  "effects (zoomTo ((GeoDataSourceViewModel ''layer'' True True int)
       \<lparr>rectangle := Some 2, isEnabled := True, isShown := True,
        heap := initial_heap(2 := \<lparr>west = js_0, south = js_0,
          east = Finite False 7070651414971679 (- 51), north = js_1\<rparr>)\<rparr>)) =
     [ga ''dataSource'' ''zoomTo'' ''layer'' None,
      tweens_add \<lparr>west = js_0, south = js_0,
                  east = Finite False 7070651414971679 (- 51), north = js_1\<rparr>,
      fitBounds \<lparr>west = js_0, south = js_0,
                 east = Finite False 7070651414971679 (- 51), north = js_1\<rparr>]"
proof -
  let ?vm = "(GeoDataSourceViewModel ''layer'' True True int)
       \<lparr>rectangle := Some 2, isEnabled := True, isShown := True,
        heap := initial_heap(2 := \<lparr>west = js_0, south = js_0,
          east = Finite False 7070651414971679 (- 51), north = js_1\<rparr>)\<rparr>"
  have g: "isEnabled ?vm" "isShown ?vm" "rectangle ?vm = Some 2"
    "\<not> js_gt (js_sub (east (heap ?vm 2)) (west (heap ?vm 2)))
             (Finite False 7070651414971679 (- 51))"
    using width_3_14 by (simp_all add: GeoDataSourceViewModel_def)
  show ?thesis
    using zoomTo_effects [OF g] zoomTo_destination [OF g] width_3_14 width_1
    by (simp add: GeoDataSourceViewModel_def)
qed

text \<open>
  C5, as the code has it. Once the guards of \<^verbatim>\<open>zoomTo\<close> are passed, the rectangle handed
  to the engines is the scratch rectangle. For each dimension, when the code's
  \<^verbatim>\<open>east - west < epsilon\<close> (or \<^verbatim>\<open>north - south < epsilon\<close>) holds, the upper bound is the
  double \<^verbatim>\<open>east + epsilon\<close> and the lower bound is the double \<^verbatim>\<open>west - epsilon\<close>; otherwise
  both bounds are those of the rectangle of the view model.
\<close>

theorem zoomTo_pads_narrow:
  assumes "isEnabled vm" and "isShown vm" and "rectangle vm = Some r"
    and "\<not> js_gt (js_sub (east (heap vm r)) (west (heap vm r)))
             (Finite False 7070651414971679 (- 51))"
  shows "effects (zoomTo vm) =
           effects vm @ [ga ''dataSource'' ''zoomTo'' (name vm) None] @
           (if cesiumScene vm then [tweens_add (heap (zoomTo vm) scratchRectangle)] else []) @
           (if leafletMap vm then [fitBounds (heap (zoomTo vm) scratchRectangle)] else []) \<and>
         (if js_lt (js_sub (east (heap vm r)) (west (heap vm r))) EPSILON3
          then east (heap (zoomTo vm) scratchRectangle) = js_add (east (heap vm r)) EPSILON3 \<and>
               west (heap (zoomTo vm) scratchRectangle) = js_sub (west (heap vm r)) EPSILON3
          else east (heap (zoomTo vm) scratchRectangle) = east (heap vm r) \<and>
               west (heap (zoomTo vm) scratchRectangle) = west (heap vm r)) \<and>
         (if js_lt (js_sub (north (heap vm r)) (south (heap vm r))) EPSILON3
          then north (heap (zoomTo vm) scratchRectangle) = js_add (north (heap vm r)) EPSILON3 \<and>
               south (heap (zoomTo vm) scratchRectangle) = js_sub (south (heap vm r)) EPSILON3
          else north (heap (zoomTo vm) scratchRectangle) = north (heap vm r) \<and>
               south (heap (zoomTo vm) scratchRectangle) = south (heap vm r))"
proof -
  note dest = zoomTo_destination [OF assms]
  have ew: "if js_lt (js_sub (east (heap vm r)) (west (heap vm r))) EPSILON3
          then east (heap (zoomTo vm) scratchRectangle) = js_add (east (heap vm r)) EPSILON3 \<and>
               west (heap (zoomTo vm) scratchRectangle) = js_sub (west (heap vm r)) EPSILON3
          else east (heap (zoomTo vm) scratchRectangle) = east (heap vm r) \<and>
               west (heap (zoomTo vm) scratchRectangle) = west (heap vm r)"
    unfolding dest by simp
  have ns: "if js_lt (js_sub (north (heap vm r)) (south (heap vm r))) EPSILON3
          then north (heap (zoomTo vm) scratchRectangle) = js_add (north (heap vm r)) EPSILON3 \<and>
               south (heap (zoomTo vm) scratchRectangle) = js_sub (south (heap vm r)) EPSILON3
          else north (heap (zoomTo vm) scratchRectangle) = north (heap vm r) \<and>
               south (heap (zoomTo vm) scratchRectangle) = south (heap vm r)"
    unfolding dest by simp
  from zoomTo_effects [OF assms] ew ns show ?thesis by (intro conjI)
qed

theorem zoomTo_pads_narrow_witness:
  "effects (zoomTo ((GeoDataSourceViewModel ''layer'' True True int)
       \<lparr>rectangle := Some 2, isEnabled := True, isShown := True,
        heap := initial_heap(2 := \<lparr>west = js_1, south = js_0, east = js_1, north = js_1\<rparr>)\<rparr>)) =
     [ga ''dataSource'' ''zoomTo'' ''layer'' None,
      tweens_add (heap (zoomTo ((GeoDataSourceViewModel ''layer'' True True int)
       \<lparr>rectangle := Some 2, isEnabled := True, isShown := True,
        heap := initial_heap(2 := \<lparr>west = js_1, south = js_0, east = js_1, north = js_1\<rparr>)\<rparr>))
        scratchRectangle),
      fitBounds (heap (zoomTo ((GeoDataSourceViewModel ''layer'' True True int)
       \<lparr>rectangle := Some 2, isEnabled := True, isShown := True,
        heap := initial_heap(2 := \<lparr>west = js_1, south = js_0, east = js_1, north = js_1\<rparr>)\<rparr>))
        scratchRectangle)] \<and>
   west (heap (zoomTo ((GeoDataSourceViewModel ''layer'' True True int)
       \<lparr>rectangle := Some 2, isEnabled := True, isShown := True,
        heap := initial_heap(2 := \<lparr>west = js_1, south = js_0, east = js_1, north = js_1\<rparr>)\<rparr>))
        scratchRectangle) = Finite False 8998192055486251 (- 53) \<and>
   east (heap (zoomTo ((GeoDataSourceViewModel ''layer'' True True int)
       \<lparr>rectangle := Some 2, isEnabled := True, isShown := True,
        heap := initial_heap(2 := \<lparr>west = js_1, south = js_0, east = js_1, north = js_1\<rparr>)\<rparr>))
        scratchRectangle) = Finite False 4508103226997866 (- 52) \<and>
   south (heap (zoomTo ((GeoDataSourceViewModel ''layer'' True True int)
       \<lparr>rectangle := Some 2, isEnabled := True, isShown := True,
        heap := initial_heap(2 := \<lparr>west = js_1, south = js_0, east = js_1, north = js_1\<rparr>)\<rparr>))
        scratchRectangle) = js_0 \<and>
   north (heap (zoomTo ((GeoDataSourceViewModel ''layer'' True True int)
       \<lparr>rectangle := Some 2, isEnabled := True, isShown := True,
        heap := initial_heap(2 := \<lparr>west = js_1, south = js_0, east = js_1, north = js_1\<rparr>)\<rparr>))
        scratchRectangle) = js_1"
  using zoomTo_pads_narrow [of "(GeoDataSourceViewModel ''layer'' True True int)
       \<lparr>rectangle := Some 2, isEnabled := True, isShown := True,
        heap := initial_heap(2 := \<lparr>west = js_1, south = js_0, east = js_1, north = js_1\<rparr>)\<rparr>" 2]
    width_0 width_1 around_1
  by (simp add: GeoDataSourceViewModel_def)

text \<open>
  The sums are rounded: for the rectangle from 1 to 1 (and 0 to 1 in latitude), the width
  of the destination, as the code would compute it, is 0.0019999999999998908, while the
  width of the rectangle plus twice the epsilon is 0.002.
\<close>

theorem zoomTo_width_counterexample:
  "js_sub
     (east (heap (zoomTo ((GeoDataSourceViewModel ''layer'' True True int)
       \<lparr>rectangle := Some 2, isEnabled := True, isShown := True,
        heap := initial_heap(2 := \<lparr>west = js_1, south = js_0, east = js_1, north = js_1\<rparr>)\<rparr>))
        scratchRectangle))
     (west (heap (zoomTo ((GeoDataSourceViewModel ''layer'' True True int)
       \<lparr>rectangle := Some 2, isEnabled := True, isShown := True,
        heap := initial_heap(2 := \<lparr>west = js_1, south = js_0, east = js_1, north = js_1\<rparr>)\<rparr>))
        scratchRectangle)) =
     Finite False 4611686018427136 (- 61) \<and>
   js_add (js_sub js_1 js_1) (js_add EPSILON3 EPSILON3) = Finite False 4611686018427388 (- 61) \<and>
   Finite False 4611686018427136 (- 61) \<noteq> Finite False 4611686018427388 (- 61)"
proof -
  let ?vm = "(GeoDataSourceViewModel ''layer'' True True int)
       \<lparr>rectangle := Some 2, isEnabled := True, isShown := True,
        heap := initial_heap(2 := \<lparr>west = js_1, south = js_0, east = js_1, north = js_1\<rparr>)\<rparr>"
  have g: "isEnabled ?vm" "isShown ?vm" "rectangle ?vm = Some 2"
    "\<not> js_gt (js_sub (east (heap ?vm 2)) (west (heap ?vm 2)))
             (Finite False 7070651414971679 (- 51))"
    using width_0 by (simp_all add: GeoDataSourceViewModel_def)
  have "east (heap (zoomTo ?vm) scratchRectangle) = Finite False 4508103226997866 (- 52)"
    and "west (heap (zoomTo ?vm) scratchRectangle) = Finite False 8998192055486251 (- 53)"
    using zoomTo_destination [OF g] width_0 around_1 by (simp_all add: GeoDataSourceViewModel_def)
  then show ?thesis
    using width_padded by simp
qed

text \<open>
  C9. \<^verbatim>\<open>zoomTo\<close> never assigns the \<^verbatim>\<open>rectangle\<close> property, and the padding is written to
  the scratch rectangle only: as long as the property does not refer to that private
  object, it refers to the same rectangle with the same bounds after the call.
\<close>

theorem zoomTo_keeps_rectangle:
  assumes "rectangle vm \<noteq> Some scratchRectangle"
  shows "rectangle (zoomTo vm) = rectangle vm \<and> rectangle_bounds (zoomTo vm) = rectangle_bounds vm"
proof (cases "rectangle vm")
  case None
  then show ?thesis by (simp add: rectangle_bounds_def zoomTo_frame)
next
  case (Some a)
  with assms have "a \<noteq> scratchRectangle" by simp
  then have "heap (zoomTo vm) a = heap vm a" by (rule zoomTo_heap_other)
  with Some show ?thesis by (simp add: rectangle_bounds_def zoomTo_frame)
qed

theorem zoomTo_keeps_rectangle_witness:
  "rectangle_bounds (zoomTo ((GeoDataSourceViewModel ''layer'' True True int)
       \<lparr>rectangle := Some 2, isEnabled := True, isShown := True,
        heap := initial_heap(2 := \<lparr>west = js_1, south = js_0, east = js_1, north = js_1\<rparr>)\<rparr>)) =
   Some \<lparr>west = js_1, south = js_0, east = js_1, north = js_1\<rparr>"
proof -
  let ?vm = "(GeoDataSourceViewModel ''layer'' True True int)
       \<lparr>rectangle := Some 2, isEnabled := True, isShown := True,
        heap := initial_heap(2 := \<lparr>west = js_1, south = js_0, east = js_1, north = js_1\<rparr>)\<rparr>"
  have "rectangle ?vm \<noteq> Some scratchRectangle"
    by (simp add: GeoDataSourceViewModel_def scratchRectangle_def)
  then have "rectangle_bounds (zoomTo ?vm) = rectangle_bounds ?vm"
    using zoomTo_keeps_rectangle [of ?vm] by simp
  also have "rectangle_bounds ?vm = Some \<lparr>west = js_1, south = js_0, east = js_1, north = js_1\<rparr>"
    by (simp add: rectangle_bounds_def GeoDataSourceViewModel_def)
  finally show ?thesis .
qed

section \<open>The "hidden" event\<close>

text \<open>
  What the handler sends when \<^verbatim>\<open>isShown\<close> goes from true to false, in any state: the
  shown timestamp is tested for being defined, the enabled timestamp for being truthy.
\<close>

lemma isShownChanged_hidden:
  assumes "isShown vm"
  shows "effects (set_isShown False vm) =
           effects vm @
           (if cesiumScene vm then [hideInCesium] else []) @
           (if leafletMap vm then [hideInLeaflet] else []) @
           [ga ''dataSource'' ''hidden'' (name vm)
              (case shownDate vm of
                 Some d \<Rightarrow> Some (elapsed_seconds (clock vm (ticks vm)) d)
               | None \<Rightarrow>
                   (case enabledDate vm of
                      Some e \<Rightarrow>
                        if e \<noteq> 0 then Some (elapsed_seconds (clock vm (ticks vm)) e) else None
                    | None \<Rightarrow> None))]"
  using assms
  by (simp add: set_isShown_def isShownChanged_def emit_def Date_now_def Let_def
      split: option.split)

text \<open>
  A view model that is shown has a shown timestamp: \<^verbatim>\<open>isShown\<close> becomes true only through
  the handler, which sets \<^verbatim>\<open>_shownDate\<close>, and nothing clears that field.
\<close>

lemma set_isShown_shownDate:
  "shownDate (set_isShown v vm) =
     (if v \<and> \<not> isShown vm then Some (clock vm (ticks vm)) else shownDate vm)"
  by (simp add: set_isShown_def isShownChanged_def emit_def Date_now_def Let_def
      split: option.split)

lemma isEnabledChanged_shownDate:
  "shownDate (isEnabledChanged vm) =
     (if isEnabled vm \<and> \<not> isShown vm then Some (clock vm (ticks vm)) else shownDate vm)"
  by (simp add: isEnabledChanged_def emit_def Date_now_def Let_def set_isShown_shownDate
      set_isShown_frame split: option.split)

lemma set_isEnabled_shownDate:
  "shownDate (set_isEnabled v vm) =
     (if v \<and> \<not> isEnabled vm \<and> \<not> isShown vm then Some (clock vm (ticks vm))
      else shownDate vm)"
  by (auto simp add: set_isEnabled_def isEnabledChanged_shownDate)

lemma perform_dated:
  assumes "isShown vm \<longrightarrow> shownDate vm \<noteq> None"
  shows "isShown (perform x vm) \<longrightarrow> shownDate (perform x vm) \<noteq> None"
proof (cases x)
  case (Assign_isEnabled v)
  with assms show ?thesis by (simp add: set_isEnabled_shownDate set_isEnabled_isShown)
next
  case (Assign_isShown v)
  with assms show ?thesis by (simp add: set_isShown_shownDate set_isShown_frame)
next
  case (Assign_isLegendVisible v)
  with assms show ?thesis by (simp add: set_isLegendVisible_def)
next
  case Call_toggleEnabled
  with assms show ?thesis
    by (simp add: toggleEnabled_def Let_def set_isEnabled_shownDate set_isEnabled_isShown)
next
  case Call_toggleShown
  with assms show ?thesis
    by (simp add: toggleShown_def Let_def set_isShown_shownDate set_isShown_frame)
next
  case Call_toggleLegendVisible
  with assms show ?thesis by (simp add: toggleLegendVisible_def Let_def set_isLegendVisible_def)
next
  case Call_zoomTo
  with assms show ?thesis by (simp add: zoomTo_frame)
qed (use assms in simp_all)

lemma reachable_dated:
  assumes "reachable vm"
  shows "isShown vm \<longrightarrow> shownDate vm \<noteq> None"
  using assms
proof (induction rule: reachable.induct)
  case (constructed nm scene leaflet clk)
  show ?case by (simp add: GeoDataSourceViewModel_def)
next
  case (performed vm x)
  then show ?case by (simp add: perform_dated)
next
  case (rectangle_assigned vm r)
  then show ?case by simp
next
  case (bounds_written vm h)
  then show ?case by simp
qed

text \<open>
  C7. On every transition of \<^verbatim>\<open>isShown\<close> to false that a view model can go through, the
  engines present are told to hide the item and one "hidden" event is sent, whose value
  is the duration in whole seconds computed from the shown timestamp when it is set, else
  from the enabled timestamp when that is set, and is undefined when neither exists.
\<close>

theorem hidden_event_duration:
  assumes "reachable vm" and "isShown vm"
  shows "effects (set_isShown False vm) =
           effects vm @
           (if cesiumScene vm then [hideInCesium] else []) @
           (if leafletMap vm then [hideInLeaflet] else []) @
           [ga ''dataSource'' ''hidden'' (name vm)
              (specified_hidden_duration (shownDate vm) (enabledDate vm) (clock vm (ticks vm)))]"
proof -
  from reachable_dated [OF assms(1)] assms(2) obtain d where "shownDate vm = Some d"
    by auto
  then show ?thesis
    using isShownChanged_hidden [OF assms(2)] by (simp add: specified_hidden_duration_def)
qed

theorem hidden_event_duration_witness:
  "effects (set_isShown False
     (snd (toggleEnabled
        (GeoDataSourceViewModel ''layer'' True True
           (min 11000 \<circ> ((+) 5000 \<circ> ((*) 3000 \<circ> int))))))) =
   [enableInCesium, enableInLeaflet, showInCesium, showInLeaflet,
    ga ''dataSource'' ''shown'' ''layer'' None, nowViewing_add,
    ga ''dataSource'' ''added'' ''layer'' None,
    hideInCesium, hideInLeaflet, ga ''dataSource'' ''hidden'' ''layer'' (Some 6)]"
proof -
  let ?clk = "min 11000 \<circ> ((+) 5000 \<circ> ((*) 3000 \<circ> int))"
  let ?vm = "snd (toggleEnabled (GeoDataSourceViewModel ''layer'' True True ?clk))"
  have "0 \<le> ?clk n \<and> ?clk n \<le> 8640000000000000" for n
    by simp
  then have "reachable (GeoDataSourceViewModel ''layer'' True True ?clk)"
    by (rule reachable.constructed)
  then have r: "reachable ?vm"
    using reachable.performed [of "GeoDataSourceViewModel ''layer'' True True ?clk"
        Call_toggleEnabled]
    by simp
  have s: "isShown ?vm"
    by (simp add: toggleEnabled_def Let_def set_isEnabled_isShown GeoDataSourceViewModel_def)
  have state: "effects ?vm =
      [enableInCesium, enableInLeaflet, showInCesium, showInLeaflet,
       ga ''dataSource'' ''shown'' ''layer'' None, nowViewing_add,
       ga ''dataSource'' ''added'' ''layer'' None]"
    "shownDate ?vm = Some 5000" "enabledDate ?vm = Some 8000"
    "clock ?vm (ticks ?vm) = 11000" "name ?vm = ''layer''" "cesiumScene ?vm" "leafletMap ?vm"
    by (simp_all add: toggleEnabled_def Let_def set_isEnabled_def isEnabledChanged_def
        set_isShown_def isShownChanged_def emit_def Date_now_def GeoDataSourceViewModel_def)
  show ?thesis
    using hidden_event_duration [OF r s]
    by (simp add: state specified_hidden_duration_def elapsed_seconds_def
        truncate_quotient_def ToInt32_def)
qed

section \<open>The default rectangle\<close>

lemma is_camera_effect_simps:
  "\<not> is_camera_effect enableInCesium" "\<not> is_camera_effect disableInCesium"
  "\<not> is_camera_effect enableInLeaflet" "\<not> is_camera_effect disableInLeaflet"
  "\<not> is_camera_effect showInCesium" "\<not> is_camera_effect hideInCesium"
  "\<not> is_camera_effect showInLeaflet" "\<not> is_camera_effect hideInLeaflet"
  "\<not> is_camera_effect nowViewing_add" "\<not> is_camera_effect nowViewing_remove"
  "\<not> is_camera_effect (ga c a l v)" "\<not> is_camera_effect (console_log s)"
  by (simp_all add: is_camera_effect_def)

lemma isShownChanged_effects:
  "\<exists>es. effects (isShownChanged vm) = effects vm @ es \<and> filter is_camera_effect es = []"
  by (simp add: isShownChanged_def emit_def Date_now_def Let_def is_camera_effect_simps
      split: option.split)

lemma isShownChanged_camera:
  "filter is_camera_effect (effects (isShownChanged vm)) = filter is_camera_effect (effects vm)"
  using isShownChanged_effects [of vm] by auto

lemma set_isShown_camera:
  "filter is_camera_effect (effects (set_isShown v vm)) = filter is_camera_effect (effects vm)"
  by (simp add: set_isShown_def isShownChanged_camera)

lemma isEnabledChanged_effects:
  "\<exists>es. effects (isEnabledChanged vm) =
         effects (if isEnabled vm \<and> \<not> isShown vm
                  then set_isShown True
                         (vm\<lparr>effects := effects vm @
                               (if cesiumScene vm then [enableInCesium] else []) @
                               (if leafletMap vm then [enableInLeaflet] else [])\<rparr>)
                  else vm\<lparr>effects := effects vm @
                          (if cesiumScene vm
                           then [if isEnabled vm then enableInCesium else disableInCesium]
                           else []) @
                          (if leafletMap vm
                           then [if isEnabled vm then enableInLeaflet else disableInLeaflet]
                           else [])\<rparr>) @ es \<and>
        filter is_camera_effect es = []"
  by (simp add: isEnabledChanged_def emit_def Date_now_def Let_def is_camera_effect_simps
      set_isShown_frame split: option.split)

lemma isEnabledChanged_camera:
  "filter is_camera_effect (effects (isEnabledChanged vm)) = filter is_camera_effect (effects vm)"
proof -
  obtain es where "effects (isEnabledChanged vm) =
         effects (if isEnabled vm \<and> \<not> isShown vm
                  then set_isShown True
                         (vm\<lparr>effects := effects vm @
                               (if cesiumScene vm then [enableInCesium] else []) @
                               (if leafletMap vm then [enableInLeaflet] else [])\<rparr>)
                  else vm\<lparr>effects := effects vm @
                          (if cesiumScene vm
                           then [if isEnabled vm then enableInCesium else disableInCesium]
                           else []) @
                          (if leafletMap vm
                           then [if isEnabled vm then enableInLeaflet else disableInLeaflet]
                           else [])\<rparr>) @ es" and "filter is_camera_effect es = []"
    using isEnabledChanged_effects [of vm] by blast
  then show ?thesis
    by (simp add: set_isShown_camera is_camera_effect_simps)
qed

lemma set_isEnabled_camera:
  "filter is_camera_effect (effects (set_isEnabled v vm)) = filter is_camera_effect (effects vm)"
  by (simp add: set_isEnabled_def isEnabledChanged_camera)

text \<open>From \<^verbatim>\<open>-Math.PI\<close> to \<^verbatim>\<open>Math.PI\<close> it is twice \<^verbatim>\<open>Math.PI\<close>, which is above 3.14.\<close>

lemma MAX_VALUE_width:
  "js_sub (east MAX_VALUE_bounds) (west MAX_VALUE_bounds) = Finite False 7074237752028440 (- 50)"
  "js_add Math_PI Math_PI = Finite False 7074237752028440 (- 50)"
  "js_gt (Finite False 7074237752028440 (- 50)) (Finite False 7070651414971679 (- 51))"
  by (simp_all add: MAX_VALUE_bounds_def Math_PI_def evaluate)

lemma MAX_VALUE_wide:
  "js_gt (js_sub (east MAX_VALUE_bounds) (west MAX_VALUE_bounds))
     (Finite False 7070651414971679 (- 51))"
  by (simp add: MAX_VALUE_width)

lemma zoomTo_MAX_VALUE:
  assumes "rectangle vm = Some MAX_VALUE" and "heap vm MAX_VALUE = MAX_VALUE_bounds"
  shows "zoomTo vm =
     (if isEnabled vm \<and> isShown vm
      then emit (console_log ''Extent is wider than half the world.  Ignoring zoomto'') vm
      else vm)"
proof (cases "isEnabled vm \<and> isShown vm")
  case True
  have wide: "js_gt (js_sub (east (heap vm MAX_VALUE)) (west (heap vm MAX_VALUE)))
                 (Finite False 7070651414971679 (- 51))"
    unfolding assms(2) by (rule MAX_VALUE_wide)
  from True assms(1) wide show ?thesis by (simp add: zoomTo_def)
next
  case False
  then show ?thesis by (auto simp add: zoomTo_def)
qed

lemma zoomTo_MAX_VALUE_frame:
  assumes "rectangle vm = Some MAX_VALUE" and "heap vm MAX_VALUE = MAX_VALUE_bounds"
  shows "rectangle (zoomTo vm) = Some MAX_VALUE"
    and "heap (zoomTo vm) MAX_VALUE = MAX_VALUE_bounds"
    and "filter is_camera_effect (effects (zoomTo vm)) = filter is_camera_effect (effects vm)"
  using assms
  by (simp_all add: zoomTo_MAX_VALUE [OF assms] emit_def is_camera_effect_simps)

lemma perform_default:
  assumes "rectangle vm = Some MAX_VALUE" and "heap vm MAX_VALUE = MAX_VALUE_bounds"
    and "filter is_camera_effect (effects vm) = []"
  shows "rectangle (perform x vm) = Some MAX_VALUE \<and>
         heap (perform x vm) MAX_VALUE = MAX_VALUE_bounds \<and>
         filter is_camera_effect (effects (perform x vm)) = []"
proof (cases x)
  case (Assign_isEnabled v)
  with assms show ?thesis by (simp add: set_isEnabled_frame set_isEnabled_camera)
next
  case (Assign_isShown v)
  with assms show ?thesis by (simp add: set_isShown_frame set_isShown_camera)
next
  case (Assign_isLegendVisible v)
  with assms show ?thesis by (simp add: set_isLegendVisible_def)
next
  case Call_toggleEnabled
  with assms show ?thesis
    by (simp add: toggleEnabled_def Let_def set_isEnabled_frame set_isEnabled_camera)
next
  case Call_toggleShown
  with assms show ?thesis
    by (simp add: toggleShown_def Let_def set_isShown_frame set_isShown_camera)
next
  case Call_toggleLegendVisible
  with assms show ?thesis by (simp add: toggleLegendVisible_def Let_def set_isLegendVisible_def)
next
  case Call_zoomTo
  with assms show ?thesis by (simp add: zoomTo_MAX_VALUE_frame)
qed (use assms in simp_all)

lemma run_default:
  assumes "rectangle vm = Some MAX_VALUE" and "heap vm MAX_VALUE = MAX_VALUE_bounds"
    and "filter is_camera_effect (effects vm) = []"
  shows "rectangle (run xs vm) = Some MAX_VALUE \<and>
         heap (run xs vm) MAX_VALUE = MAX_VALUE_bounds \<and>
         filter is_camera_effect (effects (run xs vm)) = []"
  using assms
proof (induction xs arbitrary: vm)
  case Nil
  then show ?case by simp
next
  case (Cons x xs)
  from perform_default [OF Cons.prems, of x] show ?case
    by (simp add: Cons.IH)
qed

lemma constructor_default:
  "rectangle (GeoDataSourceViewModel nm scene leaflet clk) = Some MAX_VALUE"
  "heap (GeoDataSourceViewModel nm scene leaflet clk) MAX_VALUE = MAX_VALUE_bounds"
  "filter is_camera_effect (effects (GeoDataSourceViewModel nm scene leaflet clk)) = []"
  by (simp_all add: GeoDataSourceViewModel_def initial_heap_def)

text \<open>
  C10. Whatever a client does to a freshly constructed view model, short of assigning its
  \<^verbatim>\<open>rectangle\<close> property, the property refers to \<^verbatim>\<open>Rectangle.MAX_VALUE\<close>, whose width of
  twice \<^verbatim>\<open>Math.PI\<close> is above 3.14; so \<^verbatim>\<open>zoomTo\<close> writes the warning when the item is enabled
  and shown, does nothing otherwise, and the log never holds a camera flight or a fitting
  of bounds.
\<close>

theorem default_rectangle_refused:
  "rectangle (run ops (GeoDataSourceViewModel nm scene leaflet clk)) = Some MAX_VALUE \<and>
   heap (run ops (GeoDataSourceViewModel nm scene leaflet clk)) MAX_VALUE = MAX_VALUE_bounds \<and>
   js_sub (east MAX_VALUE_bounds) (west MAX_VALUE_bounds) = js_add Math_PI Math_PI \<and>
   js_gt (js_add Math_PI Math_PI) (Finite False 7070651414971679 (- 51)) \<and>
   zoomTo (run ops (GeoDataSourceViewModel nm scene leaflet clk)) =
     (if isEnabled (run ops (GeoDataSourceViewModel nm scene leaflet clk)) \<and>
         isShown (run ops (GeoDataSourceViewModel nm scene leaflet clk))
      then emit (console_log ''Extent is wider than half the world.  Ignoring zoomto'')
             (run ops (GeoDataSourceViewModel nm scene leaflet clk))
      else run ops (GeoDataSourceViewModel nm scene leaflet clk)) \<and>
   filter is_camera_effect (effects (zoomTo (run ops (GeoDataSourceViewModel nm scene leaflet clk)))) = []"
proof -
  let ?vm = "run ops (GeoDataSourceViewModel nm scene leaflet clk)"
  have inv: "rectangle ?vm = Some MAX_VALUE \<and> heap ?vm MAX_VALUE = MAX_VALUE_bounds \<and>
             filter is_camera_effect (effects ?vm) = []"
    by (rule run_default) (rule constructor_default)+
  then have r: "rectangle ?vm = Some MAX_VALUE" and h: "heap ?vm MAX_VALUE = MAX_VALUE_bounds"
    and c: "filter is_camera_effect (effects ?vm) = []"
    by simp_all
  have w: "js_sub (east MAX_VALUE_bounds) (west MAX_VALUE_bounds) = js_add Math_PI Math_PI \<and>
           js_gt (js_add Math_PI Math_PI) (Finite False 7070651414971679 (- 51))"
    by (simp add: MAX_VALUE_width)
  from r h c w zoomTo_MAX_VALUE [OF r h] zoomTo_MAX_VALUE_frame(3) [OF r h]
  show ?thesis by simp
qed

theorem default_rectangle_refused_witness:
  "isEnabled (run [Call_toggleEnabled] (GeoDataSourceViewModel ''layer'' True True int)) \<and>
   isShown (run [Call_toggleEnabled] (GeoDataSourceViewModel ''layer'' True True int)) \<and>
   zoomTo (run [Call_toggleEnabled] (GeoDataSourceViewModel ''layer'' True True int)) =
     emit (console_log ''Extent is wider than half the world.  Ignoring zoomto'')
       (run [Call_toggleEnabled] (GeoDataSourceViewModel ''layer'' True True int))"
proof -
  have "isEnabled (run [Call_toggleEnabled] (GeoDataSourceViewModel ''layer'' True True int))"
    and "isShown (run [Call_toggleEnabled] (GeoDataSourceViewModel ''layer'' True True int))"
    by (simp_all add: toggleEnabled_def Let_def set_isEnabled_frame set_isEnabled_isShown
        GeoDataSourceViewModel_def)
  then show ?thesis
    using default_rectangle_refused [of "[Call_toggleEnabled]" "''layer''" True True int]
    by simp
qed

section \<open>The legend\<close>

lemma Canonicalize_code_46: "(of_char (Canonicalize c) = (46::nat)) = (of_char c = (46::nat))"
  by (auto simp add: Canonicalize_def Let_def)

lemma Canonicalize_code_47: "(of_char (Canonicalize c) = (47::nat)) = (of_char c = (47::nat))"
  by (auto simp add: Canonicalize_def Let_def)

lemma Canonicalize_dot: "(Canonicalize c = CHR ''.'') = (c = CHR ''.'')"
proof -
  have dot: "of_char CHR ''.'' = (46::nat)" by simp
  have "(Canonicalize c = CHR ''.'') = (of_char (Canonicalize c) = (of_char CHR ''.'' :: nat))"
    by (simp only: of_char_eq_iff)
  also have "\<dots> = (of_char c = (of_char CHR ''.'' :: nat))"
    by (simp only: dot Canonicalize_code_46)
  also have "\<dots> = (c = CHR ''.'')"
    by (simp only: of_char_eq_iff)
  finally show ?thesis .
qed

lemma Canonicalize_slash: "(Canonicalize c = CHR ''/'') = (c = CHR ''/'')"
proof -
  have slash: "of_char CHR ''/'' = (47::nat)" by simp
  have "(Canonicalize c = CHR ''/'') = (of_char (Canonicalize c) = (of_char CHR ''/'' :: nat))"
    by (simp only: of_char_eq_iff)
  also have "\<dots> = (of_char c = (of_char CHR ''/'' :: nat))"
    by (simp only: slash Canonicalize_code_47)
  also have "\<dots> = (c = CHR ''/'')"
    by (simp only: of_char_eq_iff)
  finally show ?thesis .
qed

lemma match_literal_prefix:
  "match_literal p s = prefix (map Canonicalize p) (map Canonicalize s)"
  by (induction p s rule: match_literal.induct) simp_all

lemma match_alternatives_None:
  "(match_alternatives as s = None) = (\<forall>a \<in> set as. \<not> match_literal a s)"
  by (induction as) simp_all

lemma match_here_None:
  "(match_here (c # cs) = None) =
   (\<not> ((c = CHR ''.'' \<or> c = CHR ''/'') \<and> (\<exists>a \<in> set image_extensions. match_literal a cs)))"
proof (cases "match_alternatives image_extensions cs")
  case None
  then show ?thesis
    using match_alternatives_None [of image_extensions cs] by (simp add: match_here_def)
next
  case (Some g)
  then show ?thesis
    using match_alternatives_None [of image_extensions cs] by (simp add: match_here_def)
qed

lemma contains_ci_Nil: "contains_ci (p # ps) [] = False"
  by (simp add: contains_ci_def)

lemma contains_ci_Cons:
  "contains_ci (p # ps) (c # cs) =
   (Canonicalize p = Canonicalize c \<and> match_literal ps cs \<or> contains_ci (p # ps) cs)"
  by (simp add: contains_ci_def sublist_Cons_right match_literal_prefix)

lemma has_image_marker_Nil: "has_image_marker [] = False"
  by (simp add: has_image_marker_def contains_ci_Nil list_ex_iff)

lemma has_image_marker_Cons:
  "has_image_marker (c # cs) =
   ((c = CHR ''.'' \<or> c = CHR ''/'') \<and> (\<exists>a \<in> set image_extensions. match_literal a cs)
    \<or> has_image_marker cs)"
proof -
  have dot: "(Canonicalize CHR ''.'' = Canonicalize c) = (c = CHR ''.'')"
    using Canonicalize_dot [of c] Canonicalize_dot [of "CHR ''.''"] by metis
  have slash: "(Canonicalize CHR ''/'' = Canonicalize c) = (c = CHR ''/'')"
    using Canonicalize_slash [of c] Canonicalize_slash [of "CHR ''/''"] by metis
  show ?thesis
    unfolding has_image_marker_def list_ex_iff contains_ci_Cons dot slash by blast
qed

lemma match_imageUrlRegex_None:
  "(match_imageUrlRegex u = None) = (\<not> has_image_marker u)"
proof (induction u)
  case Nil
  show ?case by (simp add: has_image_marker_Nil)
next
  case (Cons c cs)
  show ?case
  proof (cases "match_here (c # cs)")
    case None
    with Cons show ?thesis
      using match_here_None [of c cs] has_image_marker_Cons [of c cs] by simp
  next
    case (Some m)
    then show ?thesis
      using match_here_None [of c cs] has_image_marker_Cons [of c cs] by simp
  qed
qed

lemma marker_examples:
  "has_image_marker ''http://x/legend.PNG''"
  "\<not> has_image_marker ''http://x/legend.svg''"
  "\<not> has_image_marker ''''"
  by code_simp+

text \<open>
  C6, as the code has it. \<^verbatim>\<open>legendIsImage\<close> is truthy exactly when the legend URL is
  defined and holds, at some place, a dot or a slash followed by png, jpg, jpeg or gif,
  in any mix of upper and lower case.
\<close>

theorem legendIsImage_marker:
  "truthy (legendIsImage vm) =
   (case legendUrl vm of None \<Rightarrow> False | Some u \<Rightarrow> has_image_marker u)"
proof (cases "legendUrl vm")
  case None
  then show ?thesis by (simp add: legendIsImage_def truthy_def)
next
  case (Some u)
  show ?thesis
  proof (cases "match_imageUrlRegex u")
    case None
    with Some show ?thesis
      using match_imageUrlRegex_None [of u]
      by (simp add: legendIsImage_def truthy_def has_image_marker_Nil)
  next
    case (Some m)
    with \<open>legendUrl vm = Some u\<close> show ?thesis
      using match_imageUrlRegex_None [of u]
      by (auto simp add: legendIsImage_def truthy_def)
  qed
qed

theorem legendIsImage_marker_witness:
  "truthy (legendIsImage ((GeoDataSourceViewModel ''layer'' True True int)
             \<lparr>legendUrl := Some ''http://x/legend.PNG''\<rparr>)) \<and>
   \<not> truthy (legendIsImage ((GeoDataSourceViewModel ''layer'' True True int)
             \<lparr>legendUrl := Some ''http://x/legend.svg''\<rparr>)) \<and>
   \<not> truthy (legendIsImage ((GeoDataSourceViewModel ''layer'' True True int)
             \<lparr>legendUrl := Some ''''\<rparr>)) \<and>
   \<not> truthy (legendIsImage (GeoDataSourceViewModel ''layer'' True True int))"
  using legendIsImage_marker [of "(GeoDataSourceViewModel ''layer'' True True int)
             \<lparr>legendUrl := Some ''http://x/legend.PNG''\<rparr>"]
    legendIsImage_marker [of "(GeoDataSourceViewModel ''layer'' True True int)
             \<lparr>legendUrl := Some ''http://x/legend.svg''\<rparr>"]
    legendIsImage_marker [of "(GeoDataSourceViewModel ''layer'' True True int)
             \<lparr>legendUrl := Some ''''\<rparr>"]
    legendIsImage_marker [of "GeoDataSourceViewModel ''layer'' True True int"]
  by (simp add: marker_examples GeoDataSourceViewModel_def)

lemma png_format_marker:
  "match_imageUrlRegex ''http://x/wms?request=GetLegendGraphic&format=image/png'' =
     Some [''/png'', ''png'']"
  by code_simp

lemma png_format_no_extension:
  "\<not> has_image_extension ''http://x/wms?request=GetLegendGraphic&format=image/png''"
  by code_simp

text \<open>
  A legend URL of a map service names the format as \<^verbatim>\<open>image/png\<close>: the getter answers with
  a match, although no file extension occurs in the URL.
\<close>

theorem legendIsImage_extension_counterexample:
  "legendIsImage ((GeoDataSourceViewModel ''layer'' True True int)
      \<lparr>legendUrl := Some ''http://x/wms?request=GetLegendGraphic&format=image/png''\<rparr>) =
     Array [''/png'', ''png''] \<and>
   truthy (Array [''/png'', ''png'']) \<and>
   \<not> has_image_extension ''http://x/wms?request=GetLegendGraphic&format=image/png''"
  by (simp add: legendIsImage_def png_format_marker png_format_no_extension truthy_def
      GeoDataSourceViewModel_def del: match_imageUrlRegex.simps)

end
